theory Spec2Isabelle
  imports Main
begin

section \<open>JavaScript values\<close>

text \<open>
  The values the development server handles: JSON data from request bodies and from
  decoded catalog literals, \<open>Error\<close> objects (by their message), the \<open>AbortSignal\<close> of a
  request (by the number of its allocation), function objects exported by a compiled
  provider module (by a number; the server state gives each its behaviour) and the
  members every object inherits from \<open>Object.prototype\<close> (by their name).
  Numbers are integers: no claim depends on a fraction.
\<close>

datatype jsval =
    JUndefined
  | JNull
  | JBool bool
  | JNum int
  | JStr string
  | JArr "jsval list"
  | JObj "(string \<times> jsval) list"
  | JError string
  | JSignal nat
  | JFun nat
  | JNative string

text \<open>An object read by key: the module objects, the caller's parameters, the execution
  context.\<close>

type_synonym jsobject = "string \<rightharpoonup> jsval"

text \<open>What awaiting a call gives: a value, a raised (or rejected) value, or a promise that
  never settles.\<close>

datatype outcome = Returned jsval | Thrown jsval | Pending

text \<open>\<open>!v\<close> is \<open>\<not> truthy v\<close>.\<close>

fun truthy :: "jsval \<Rightarrow> bool" where
  "truthy JUndefined = False"
| "truthy JNull = False"
| "truthy (JBool b) = b"
| "truthy (JNum n) = (n \<noteq> 0)"
| "truthy (JStr s) = (s \<noteq> [])"
| "truthy _ = True"

text \<open>\<open>obj.key\<close> on an object: \<open>undefined\<close> when the key is absent.\<close>

definition getProp :: "jsobject \<Rightarrow> string \<Rightarrow> jsval" where
  "getProp obj key = (case obj key of None \<Rightarrow> JUndefined | Some v \<Rightarrow> v)"

text \<open>\<open>error.message\<close> on a caught value: \<open>None\<close> when the read itself raises a
  \<open>TypeError\<close> (the value is \<open>null\<close> or \<open>undefined\<close>).\<close>

fun readMessage :: "jsval \<Rightarrow> jsval option" where
  "readMessage JUndefined = None"
| "readMessage JNull = None"
| "readMessage (JError m) = Some (JStr m)"
| "readMessage (JObj kvs) = Some (case map_of kvs ''message'' of None \<Rightarrow> JUndefined | Some v \<Rightarrow> v)"
| "readMessage _ = Some JUndefined"

section \<open>The catalog literal: locating and normalising\<close>

text \<open>
  Source text is a list of code units below 256. \<open>\w\<close> is \<open>[A-Za-z0-9_]\<close>; \<open>\s\<close> is, in
  that range, tab, line feed, vertical tab, form feed, carriage return, space and the
  no-break space.
\<close>

definition isWordChar :: "char \<Rightarrow> bool" where
  "isWordChar c = (let n = (of_char c :: nat) in
     (48 \<le> n \<and> n \<le> 57) \<or> (65 \<le> n \<and> n \<le> 90) \<or> (97 \<le> n \<and> n \<le> 122) \<or> n = 95)"

definition isSpaceChar :: "char \<Rightarrow> bool" where
  "isSpaceChar c = (let n = (of_char c :: nat) in (9 \<le> n \<and> n \<le> 13) \<or> n = 32 \<or> n = 160)"

text \<open>The text after the first occurrence of \<open>pat\<close>, and the text before it.\<close>

fun findAfter :: "string \<Rightarrow> string \<Rightarrow> string option" where
  "findAfter pat [] = (if pat = [] then Some [] else None)"
| "findAfter pat (c # cs) =
     (if take (length pat) (c # cs) = pat then Some (drop (length pat) (c # cs))
      else findAfter pat cs)"

fun takeUntil :: "string \<Rightarrow> string \<Rightarrow> string option" where
  "takeUntil pat [] = (if pat = [] then Some [] else None)"
| "takeUntil pat (c # cs) =
     (if take (length pat) (c # cs) = pat then Some []
      else map_option ((#) c) (takeUntil pat cs))"

text \<open>
  \<open>content.match(/export const NAME = (\[[\s\S]*?\]);/)\<close>, group 1. The match starts at the
  first \<open>export const NAME = [\<close> and the lazy body ends before the first \<open>];\<close> after the
  bracket; when no \<open>];\<close> follows the first occurrence none follows a later one, so there
  is no match at all.
\<close>

definition matchDeclaration :: "string \<Rightarrow> string \<Rightarrow> string option" where
  "matchDeclaration name content =
     (case findAfter (''export const '' @ name @ '' = ['') content of
        None \<Rightarrow> None
      | Some rest \<Rightarrow>
          (case takeUntil ''];'' rest of
             None \<Rightarrow> None
           | Some body \<Rightarrow> Some (''['' @ body @ '']'')))"

text \<open>
  \<open>.replace(/(\w+):\s*/g, '"$1": ')\<close>: a maximal run of word characters followed by a
  colon is quoted, and the white space after the colon becomes one space.
\<close>

function quoteKeys :: "string \<Rightarrow> string" where
  "quoteKeys [] = []"
| "quoteKeys (c # cs) =
     (if isWordChar c then
        (case dropWhile isWordChar cs of
           [] \<Rightarrow> c # takeWhile isWordChar cs
         | d # ds \<Rightarrow>
             if d = CHR '':'' then
               [CHR 0x22] @ c # takeWhile isWordChar cs @ [CHR 0x22] @ '': ''
                 @ quoteKeys (dropWhile isSpaceChar ds)
             else c # takeWhile isWordChar cs @ d # quoteKeys ds)
      else c # quoteKeys cs)"
  by pat_completeness auto
termination
proof (relation "measure length", goal_cases)
  case 1
  show ?case by simp
next
  case (2 c cs d ds)
  have "length (dropWhile isSpaceChar ds) \<le> length ds"
    by (rule length_dropWhile_le)
  moreover have "length (d # ds) \<le> length cs"
    using 2 length_dropWhile_le [of isWordChar cs] by simp
  ultimately show ?case by simp
next
  case (3 c cs d ds)
  have "length (d # ds) \<le> length cs"
    using 3 length_dropWhile_le [of isWordChar cs] by simp
  then show ?case by simp
next
  case (4 c cs)
  show ?case by simp
qed

text \<open>
  \<open>.replace(/,(\s*[\]\}])/g, '$1')\<close>: a comma that only white space separates from a
  closing bracket or brace is removed.
\<close>

function dropTrailingCommas :: "string \<Rightarrow> string" where
  "dropTrailingCommas [] = []"
| "dropTrailingCommas (c # cs) =
     (if c = CHR '','' then
        (case dropWhile isSpaceChar cs of
           [] \<Rightarrow> c # dropTrailingCommas cs
         | d # ds \<Rightarrow>
             if d = CHR '']'' \<or> d = CHR ''}'' then
               takeWhile isSpaceChar cs @ d # dropTrailingCommas ds
             else c # dropTrailingCommas cs)
      else c # dropTrailingCommas cs)"
  by pat_completeness auto
termination
proof (relation "measure length", goal_cases)
  case 1
  show ?case by simp
next
  case (2 c cs)
  show ?case by simp
next
  case (3 c cs d ds)
  have "length (d # ds) \<le> length cs"
    using 3 length_dropWhile_le [of isSpaceChar cs] by simp
  then show ?case by simp
next
  case (4 c cs d ds)
  show ?case by simp
next
  case (5 c cs)
  show ?case by simp
qed

text \<open>\<open>.replace(/'/g, '"')\<close>.\<close>

definition doubleQuotes :: "string \<Rightarrow> string" where
  "doubleQuotes s = map (\<lambda>c. if c = CHR 0x27 then CHR 0x22 else c) s"

definition normalise :: "string \<Rightarrow> string" where
  "normalise lit = doubleQuotes (dropTrailingCommas (quoteKeys lit))"

section \<open>Compiled artifacts, the module cache and the server state\<close>

text \<open>
  A compiled file either raises while it is loaded (\<open>Broken\<close>, with the message of the
  \<open>Error\<close>: a truncated or malformed file, a failing top level) or yields its module
  object. Loading and calling provider code have no other effect on the server.
\<close>

datatype artifact = Broken string | Module jsobject

text \<open>An entry of the \<open>dist\<close> directory: a file, or a directory with its files.\<close>

datatype entry = File artifact | Dir "(string \<times> artifact) list"

text \<open>
  The paths \<open>require\<close> is called with: \<open>path.join(__dirname, "dist", "providerContext")\<close>
  and \<open>path.join(this.distDir, provider, file)\<close>. A provider identifier is a plain
  directory name, and a path is its own key in \<open>require.cache\<close> (no symbolic links).
\<close>

datatype path = ContextPath | ModulePath string string

text \<open>\<open>providers/<provider>/catalog.ts\<close>: its text, or the message \<open>readFileSync\<close> raises.\<close>

datatype source = Text string | Unreadable string

record server =
  dist :: "(string \<times> entry) list option"
  sources :: "string \<rightharpoonup> source"
  cache :: "path \<rightharpoonup> jsobject"
  behaviour :: "nat \<Rightarrow> jsobject \<Rightarrow> outcome"
  nextSignal :: nat
  reads :: "path list"
  console :: "jsval list list"

text \<open>
  \<open>dist\<close> is \<open>None\<close> when the directory does not exist, else its entries in
  \<open>readdirSync\<close> order; \<open>cache\<close> is \<open>require.cache\<close>; \<open>behaviour\<close> is what each
  function object does when called with one argument and awaited; \<open>nextSignal\<close> numbers
  the \<open>AbortController\<close>s created so far; \<open>reads\<close> lists the files \<open>require\<close> went to
  the disk for; \<open>console\<close> lists the argument lists of \<open>console.error\<close>.
\<close>

definition artifactAt :: "server \<Rightarrow> path \<Rightarrow> artifact option" where
  "artifactAt s p =
     (case dist s of
        None \<Rightarrow> None
      | Some entries \<Rightarrow>
          (case p of
             ContextPath \<Rightarrow>
               (case map_of entries ''providerContext.js'' of
                  Some (File a) \<Rightarrow> Some a
                | _ \<Rightarrow> None)
           | ModulePath provider file \<Rightarrow>
               (case map_of entries provider of
                  Some (Dir files) \<Rightarrow> map_of files file
                | _ \<Rightarrow> None)))"

fun isDirectory :: "entry \<Rightarrow> bool" where
  "isDirectory (Dir files) = True"
| "isDirectory (File a) = False"

definition getAvailableProviders :: "server \<Rightarrow> string list" where
  "getAvailableProviders s =
     (case dist s of
        None \<Rightarrow> []
      | Some entries \<Rightarrow> map fst (filter (\<lambda>item. isDirectory (snd item)) entries))"

fun pathText :: "path \<Rightarrow> string" where
  "pathText ContextPath = ''dist/providerContext''"
| "pathText (ModulePath provider file) = ''dist/'' @ provider @ ''/'' @ file"

text \<open>The error of \<open>require\<close> for a file that is not there (its message shortened).\<close>

definition cannotFindModule :: "path \<Rightarrow> jsval" where
  "cannotFindModule p = JError (''Cannot find module '' @ pathText p)"

text \<open>
  \<open>require(p)\<close>: a cached module is returned as it is, without a look at the disk;
  otherwise the file is loaded, and cached when the load succeeds.
\<close>

definition require :: "server \<Rightarrow> path \<Rightarrow> (jsval + jsobject) \<times> server" where
  "require s p =
     (case cache s p of
        Some m \<Rightarrow> (Inr m, s)
      | None \<Rightarrow>
          (case artifactAt s p of
             None \<Rightarrow> (Inl (cannotFindModule p), s\<lparr>reads := reads s @ [p]\<rparr>)
           | Some (Broken msg) \<Rightarrow> (Inl (JError msg), s\<lparr>reads := reads s @ [p]\<rparr>)
           | Some (Module m) \<Rightarrow>
               (Inr m, s\<lparr>cache := (cache s)(p \<mapsto> m), reads := reads s @ [p]\<rparr>)))"

section \<open>executeProviderFunction\<close>

definition functionMap :: "(string \<times> jsval) list" where
  "functionMap =
     [(''getPosts'', JStr ''getPosts''),
      (''getSearchPosts'', JStr ''getSearchPosts''),
      (''getMeta'', JStr ''getMeta''),
      (''getStream'', JStr ''getStream''),
      (''getEpisodes'', JStr ''getEpisodes'')]"

text \<open>The members an object literal inherits from \<open>Object.prototype\<close>.\<close>

definition objectPrototype :: "string list" where
  "objectPrototype =
     [''constructor'', ''__defineGetter__'', ''__defineSetter__'', ''hasOwnProperty'',
      ''__lookupGetter__'', ''__lookupSetter__'', ''isPrototypeOf'',
      ''propertyIsEnumerable'', ''toString'', ''valueOf'', ''__proto__'',
      ''toLocaleString'']"

text \<open>\<open>functionMap[functionName]\<close>: an own key first, then the prototype.\<close>

definition lookupFunctionMap :: "string \<Rightarrow> jsval" where
  "lookupFunctionMap functionName =
     (case map_of functionMap functionName of
        Some v \<Rightarrow> v
      | None \<Rightarrow> if functionName \<in> set objectPrototype then JNative functionName else JUndefined)"

text \<open>The file each branch of the \<open>if\<close> chain requires; no branch for any other name.\<close>

definition moduleFile :: "string \<Rightarrow> string option" where
  "moduleFile functionName =
     (if functionName = ''getPosts'' \<or> functionName = ''getSearchPosts'' then Some ''posts.js''
      else if functionName = ''getMeta'' then Some ''meta.js''
      else if functionName = ''getStream'' then Some ''stream.js''
      else if functionName = ''getEpisodes'' then Some ''episodes.js''
      else None)"

text \<open>
  The body of the inner \<open>try\<close>: require the module and read the export named as the
  capability; then, when the module is in the cache, delete it there, require it again
  and read the export again. \<open>Inl\<close> is the raised import error.
\<close>

definition importProviderFunction :: "server \<Rightarrow> string \<Rightarrow> string \<Rightarrow> (jsval + jsval) \<times> server" where
  "importProviderFunction s provider functionName =
     (case moduleFile functionName of
        None \<Rightarrow> (Inr JUndefined, s)
      | Some file \<Rightarrow>
          (let modulePath = ModulePath provider file in
           case require s modulePath of
             (Inl importError, s1) \<Rightarrow> (Inl importError, s1)
           | (Inr module, s1) \<Rightarrow>
               (case cache s1 modulePath of
                  None \<Rightarrow> (Inr (getProp module functionName), s1)
                | Some cached \<Rightarrow>
                    (case require (s1\<lparr>cache := (cache s1)(modulePath := None)\<rparr>) modulePath of
                       (Inl importError, s2) \<Rightarrow> (Inl importError, s2)
                     | (Inr fresh, s2) \<Rightarrow> (Inr (getProp fresh functionName), s2)))))"

text \<open>Calling a value: a function object behaves as the state says, anything else raises.\<close>

fun callFunction :: "server \<Rightarrow> jsval \<Rightarrow> jsobject \<Rightarrow> outcome" where
  "callFunction s (JFun n) arg = behaviour s n arg"
| "callFunction s v arg = Thrown (JError ''providerFunction is not a function'')"

definition messageTypeError :: "jsval \<Rightarrow> jsval" where
  "messageTypeError v =
     JError (''Cannot read properties of '' @ (if v = JNull then ''null'' else ''undefined'')
       @ '' (reading 'message')'')"

definition buildExecutionParams :: "jsobject \<Rightarrow> string \<Rightarrow> jsval \<Rightarrow> jsval \<Rightarrow> jsobject" where
  "buildExecutionParams params provider signal providerContext =
     params(''providerValue'' \<mapsto> JStr provider, ''signal'' \<mapsto> signal,
       ''providerContext'' \<mapsto> providerContext)"

text \<open>The outer \<open>try\<close> block.\<close>

definition executeProviderFunctionTry ::
  "server \<Rightarrow> string \<Rightarrow> string \<Rightarrow> jsobject \<Rightarrow> outcome \<times> server" where
  "executeProviderFunctionTry s provider functionName params =
     (case require s ContextPath of
        (Inl loadError, s1) \<Rightarrow> (Thrown loadError, s1)
      | (Inr contextModule, s1) \<Rightarrow>
          (let providerContext = getProp contextModule ''providerContext'';
               actualFunctionName = lookupFunctionMap functionName in
           if \<not> truthy actualFunctionName then
             (Thrown (JError (''Unknown function: '' @ functionName)), s1)
           else
             (case importProviderFunction s1 provider functionName of
                (Inl importError, s2) \<Rightarrow>
                  (case readMessage importError of
                     None \<Rightarrow> (Thrown (messageTypeError importError), s2)
                   | Some message \<Rightarrow>
                       (Thrown (JError (''Provider function not found: '' @ provider @ ''/''
                          @ functionName)),
                        s2\<lparr>console := console s2 @
                          [[JStr (''Import error for '' @ provider @ ''/'' @ functionName @ '':''),
                            message]]\<rparr>))
              | (Inr providerFunction, s2) \<Rightarrow>
                  if \<not> truthy providerFunction then
                    (Thrown (JError (''Function not exported: '' @ functionName @ '' from ''
                       @ provider)), s2)
                  else
                    (let signal = JSignal (nextSignal s2);
                         s3 = s2\<lparr>nextSignal := Suc (nextSignal s2)\<rparr>;
                         executionParams =
                           buildExecutionParams params provider signal providerContext
                     in (callFunction s3 providerFunction executionParams, s3)))))"

text \<open>The whole function: the outer \<open>catch\<close> logs what was raised and raises it again.\<close>

definition executeProviderFunction ::
  "server \<Rightarrow> string \<Rightarrow> string \<Rightarrow> jsobject \<Rightarrow> outcome \<times> server" where
  "executeProviderFunction s provider functionName params =
     (case executeProviderFunctionTry s provider functionName params of
        (Thrown error, s1) \<Rightarrow>
          (Thrown error,
           s1\<lparr>console := console s1 @
             [[JStr (''Error executing '' @ provider @ ''.'' @ functionName @ '':''), error]]\<rparr>)
      | (result, s1) \<Rightarrow> (result, s1))"

section \<open>The routes that call executeProviderFunction\<close>

text \<open>
  What a handler does with its request: it sends a response (status, value given to
  \<open>res.json\<close>), or its own \<open>catch\<close> block raises and nothing is sent by it, or it waits
  for ever.
\<close>

datatype reply = Responded nat jsval | Unhandled jsval | NoReply

text \<open>
  \<open>POST /execute-provider\<close>, for a body whose \<open>provider\<close> and \<open>function\<close> are strings
  (an absent one is the empty string: both are falsy) and whose \<open>params\<close> is an object
  or absent.
\<close>

definition executeProviderRoute ::
  "server \<Rightarrow> string \<Rightarrow> string \<Rightarrow> jsobject option \<Rightarrow> reply \<times> server" where
  "executeProviderRoute s provider functionName params =
     (case params of
        None \<Rightarrow>
          (Responded 400
             (JObj [(''error'', JStr ''Missing required fields: provider, function, params'')]), s)
      | Some ps \<Rightarrow>
          if provider = [] \<or> functionName = [] then
            (Responded 400
               (JObj [(''error'', JStr ''Missing required fields: provider, function, params'')]), s)
          else
            (case executeProviderFunction s provider functionName ps of
               (Returned result, s1) \<Rightarrow> (Responded 200 result, s1)
             | (Pending, s1) \<Rightarrow> (NoReply, s1)
             | (Thrown error, s1) \<Rightarrow>
                 (let s2 = s1\<lparr>console := console s1 @
                             [[JStr ''Provider execution error:'', error]]\<rparr> in
                  case readMessage error of
                    None \<Rightarrow> (Unhandled (messageTypeError error), s2)
                  | Some message \<Rightarrow>
                      (Responded 500
                         (JObj [(''error'',
                            if truthy message then message
                            else JStr ''Provider execution failed'')]), s2))))"



section \<open>The catalog route\<close>

definition defaultCatalog :: "jsval list" where
  "defaultCatalog =
     [JObj [(''title'', JStr ''Popular''), (''filter'', JStr [])],
      JObj [(''title'', JStr ''Latest''), (''filter'', JStr ''latest'')]]"

text \<open>
  One of the two extraction blocks (they differ in the name only). \<open>parse\<close> is
  \<open>JSON.parse\<close> on a text that starts with a bracket: it raises (\<open>Inl\<close>) or returns an
  array (\<open>Inr\<close>, its elements). The result is the field and what was logged.
\<close>

definition extractField ::
  "(string \<Rightarrow> jsval + jsval list) \<Rightarrow> string \<Rightarrow> string \<Rightarrow> jsval list \<times> jsval list list" where
  "extractField parse name content =
     (case matchDeclaration name content of
        None \<Rightarrow> ([], [])
      | Some lit \<Rightarrow>
          (case parse (normalise lit) of
             Inr decoded \<Rightarrow> (decoded, [])
           | Inl parseError \<Rightarrow>
               ([], [[JStr (''Failed to parse '' @ name @ '':''), parseError]])))"

text \<open>Both blocks on the text of \<open>catalog.ts\<close>: catalog, genres and the log lines.\<close>

definition extractCatalogMetadata ::
  "(string \<Rightarrow> jsval + jsval list) \<Rightarrow> string \<Rightarrow> jsval list \<times> jsval list \<times> jsval list list" where
  "extractCatalogMetadata parse content =
     (let (catalog, logged1) = extractField parse ''catalog'' content;
          (genres, logged2) = extractField parse ''genres'' content
      in (catalog, genres, logged1 @ logged2))"

text \<open>\<open>GET /catalog/:provider\<close> of \<open>dev-server.js\<close>.\<close>

definition catalogRoute ::
  "(string \<Rightarrow> jsval + jsval list) \<Rightarrow> server \<Rightarrow> string \<Rightarrow> reply \<times> server" where
  "catalogRoute parse s provider =
     (case sources s provider of
        Some (Unreadable msg) \<Rightarrow>
          (Responded 500 (JObj [(''error'', JStr msg)]),
           s\<lparr>console := console s @ [[JStr ''Catalog error:'', JError msg]]\<rparr>)
      | found \<Rightarrow>
          (let (catalog, genres, logged) =
                 (case found of
                    Some (Text content) \<Rightarrow> extractCatalogMetadata parse content
                  | _ \<Rightarrow> ([], [], []));
               catalog = (if catalog = [] then defaultCatalog else catalog)
           in (Responded 200 (JObj [(''catalog'', JArr catalog), (''genres'', JArr genres)]),
               s\<lparr>console := console s @ logged\<rparr>)))"

text \<open>
  The same route in the older server file: the decoded catalog is sent as it is, and the
  inner \<open>catch\<close> reads \<open>catalogStr\<close>, a \<open>let\<close> of the \<open>try\<close> block, which raises a
  \<open>ReferenceError\<close> that the outer \<open>catch\<close> answers.
\<close>

definition catalogRouteOld ::
  "(string \<Rightarrow> jsval + jsval list) \<Rightarrow> server \<Rightarrow> string \<Rightarrow> reply \<times> server" where
  "catalogRouteOld parse s provider =
     (case sources s provider of
        Some (Unreadable msg) \<Rightarrow>
          (Responded 500 (JObj [(''error'', JStr msg)]),
           s\<lparr>console := console s @ [[JStr ''Catalog error:'', JError msg]]\<rparr>)
      | Some (Text content) \<Rightarrow>
          (case matchDeclaration ''catalog'' content of
             None \<Rightarrow> (Responded 200 (JArr defaultCatalog), s)
           | Some lit \<Rightarrow>
               (case parse (normalise lit) of
                  Inr catalog \<Rightarrow> (Responded 200 (JArr catalog), s)
                | Inl parseError \<Rightarrow>
                    (Responded 500 (JObj [(''error'', JStr ''catalogStr is not defined'')]),
                     s\<lparr>console := console s @
                       [[JStr ''Failed to parse catalog:'', parseError],
                        [JStr ''Catalog error:'', JError ''catalogStr is not defined'']]\<rparr>)))
      | None \<Rightarrow> (Responded 200 (JArr defaultCatalog), s))"

section \<open>A sample installation\<close>

text \<open>
  One built tree, used to run the definitions: the helper bundle, a provider \<open>demo\<close>
  whose \<open>posts.js\<close> exports both listing functions, whose \<open>meta.js\<close> exports nothing,
  whose \<open>stream.js\<close> is cut short and which has no \<open>episodes.js\<close>, and a provider
  \<open>probe\<close> whose \<open>getPosts\<close> returns the three engine fields of the context it is given,
  and a provider \<open>flaky\<close> whose \<open>getPosts\<close> raises an \<open>Error\<close> and whose
  \<open>getSearchPosts\<close> rejects with \<open>null\<close>.
\<close>

definition helperBundle :: jsval where
  "helperBundle = JObj [(''commonHeaders'', JObj [(''Accept'', JStr ''*/*'')])]"

definition threePosts :: jsval where
  "threePosts =
     JArr [JObj [(''title'', JStr ''One''), (''link'', JStr ''/one'')],
           JObj [(''title'', JStr ''Two''), (''link'', JStr ''/two'')],
           JObj [(''title'', JStr ''Three''), (''link'', JStr ''/three'')]]"

definition demoDist :: "(string \<times> entry) list" where
  "demoDist =
     [(''providerContext.js'', File (Module [''providerContext'' \<mapsto> helperBundle])),
      (''demo'',
       Dir [(''posts.js'', Module [''getPosts'' \<mapsto> JFun 0, ''getSearchPosts'' \<mapsto> JFun 1]),
            (''meta.js'', Module Map.empty),
            (''stream.js'', Broken ''Unexpected end of input'')]),
      (''probe'', Dir [(''posts.js'', Module [''getPosts'' \<mapsto> JFun 2])]),
      (''flaky'',
       Dir [(''posts.js'', Module [''getPosts'' \<mapsto> JFun 1, ''getSearchPosts'' \<mapsto> JFun 5])])]"

definition demoBehaviour :: "nat \<Rightarrow> jsobject \<Rightarrow> outcome" where
  "demoBehaviour n arg =
     (if n = 0 then Returned threePosts
      else if n = 1 then Thrown (JError ''search is down'')
      else if n = 2 then
        Returned (JArr [getProp arg ''providerValue'', getProp arg ''signal'',
                        getProp arg ''providerContext''])
      else if n = 3 then Thrown (JError ''Provider function not found: demo/getStream'')
      else if n = 4 then Returned (JArr [JObj [(''title'', JStr ''Rebuilt'')]])
      else if n = 5 then Thrown JNull
      else Pending)"

text \<open>Two catalog sources: one whose genres literal is not JSON after the
  normalisation, one that declares genres only.\<close>

definition demoSources :: "string \<rightharpoonup> source" where
  \<open>demoSources =
     [''demo'' \<mapsto> Text (''export const catalog = [{title: 'Latest', filter: 'latest',},];''
                          @ '' export const genres = [{title: Action}];''),
      ''probe'' \<mapsto> Text ''export const genres = [{title: 'Action', filter: 'action'}];'']\<close>

definition demoServer :: server where
  "demoServer =
     \<lparr>dist = Some demoDist, sources = demoSources, cache = Map.empty,
      behaviour = demoBehaviour, nextSignal = 0, reads = [], console = []\<rparr>"




text \<open>\<open>JSON.parse\<close> on the three texts the samples decode; every other text is taken to
  raise (the message shortened).\<close>

definition sampleParse :: "string \<Rightarrow> jsval + jsval list" where
  \<open>sampleParse t =
     (if t = ''[{"title": "Latest", "filter": "latest"}]'' then
        Inr [JObj [(''title'', JStr ''Latest''), (''filter'', JStr ''latest'')]]
      else if t = ''[{"title": "Action", "filter": "action"}]'' then
        Inr [JObj [(''title'', JStr ''Action''), (''filter'', JStr ''action'')]]
      else if t = ''[]'' then Inr []
      else Inl (JError ''Unexpected token''))\<close>


section \<open>Auxiliary facts about loading\<close>

lemmas exec_unfold = executeProviderFunction_def executeProviderFunctionTry_def
  importProviderFunction_def require_def Let_def

lemmas sample_defs = demoServer_def demoDist_def demoBehaviour_def artifactAt_def
  getAvailableProviders_def moduleFile_def getProp_def buildExecutionParams_def
  lookupFunctionMap_def functionMap_def objectPrototype_def cannotFindModule_def

lemma artifactAt_frame [simp]:
  "artifactAt (s\<lparr>cache := c\<rparr>) p = artifactAt s p"
  "artifactAt (s\<lparr>reads := r\<rparr>) p = artifactAt s p"
  "artifactAt (s\<lparr>console := l\<rparr>) p = artifactAt s p"
  "artifactAt (s\<lparr>nextSignal := n\<rparr>) p = artifactAt s p"
  by (simp_all add: artifactAt_def)

lemma callFunction_frame [simp]:
  "callFunction (s\<lparr>cache := c\<rparr>) f arg = callFunction s f arg"
  "callFunction (s\<lparr>reads := r\<rparr>) f arg = callFunction s f arg"
  "callFunction (s\<lparr>console := l\<rparr>) f arg = callFunction s f arg"
  "callFunction (s\<lparr>nextSignal := n\<rparr>) f arg = callFunction s f arg"
  by (cases f; simp)+

lemma require_context_cases:
  assumes "fst (require s ContextPath) = Inr cm"
  shows "(cache s ContextPath = Some cm \<and> require s ContextPath = (Inr cm, s)) \<or>
         (cache s ContextPath = None \<and> require s ContextPath =
           (Inr cm, s\<lparr>cache := (cache s)(ContextPath \<mapsto> cm), reads := reads s @ [ContextPath]\<rparr>))"
  using assms by (auto simp: require_def split: option.splits artifact.splits)

lemma import_loads_uncached:
  assumes "moduleFile fn = Some file"
      and "artifactAt s (ModulePath p file) = Some (Module m)"
      and "cache s (ModulePath p file) = None"
  shows "importProviderFunction s p fn =
           (Inr (getProp m fn),
            s\<lparr>cache := (cache s)(ModulePath p file \<mapsto> m),
              reads := reads s @ [ModulePath p file, ModulePath p file]\<rparr>)"
  using assms by (simp add: importProviderFunction_def require_def Let_def)

lemma import_loads_cached:
  assumes "moduleFile fn = Some file"
      and "artifactAt s (ModulePath p file) = Some (Module m)"
      and "cache s (ModulePath p file) = Some stale"
  shows "importProviderFunction s p fn =
           (Inr (getProp m fn),
            s\<lparr>cache := (cache s)(ModulePath p file \<mapsto> m),
              reads := reads s @ [ModulePath p file]\<rparr>)"
  using assms by (simp add: importProviderFunction_def require_def Let_def)

lemma import_fails_uncached:
  assumes "moduleFile fn = Some file"
      and "artifactAt s (ModulePath p file) = None \<or> artifactAt s (ModulePath p file) = Some (Broken msg)"
      and "cache s (ModulePath p file) = None"
  shows "\<exists>e. importProviderFunction s p fn =
           (Inl (JError e), s\<lparr>reads := reads s @ [ModulePath p file]\<rparr>)"
  using assms by (auto simp: importProviderFunction_def require_def cannotFindModule_def Let_def)

lemma import_fails_cached:
  assumes "moduleFile fn = Some file"
      and "artifactAt s (ModulePath p file) = None \<or> artifactAt s (ModulePath p file) = Some (Broken msg)"
      and "cache s (ModulePath p file) = Some stale"
  shows "\<exists>e. importProviderFunction s p fn =
           (Inl (JError e),
            s\<lparr>cache := (cache s)(ModulePath p file := None),
              reads := reads s @ [ModulePath p file]\<rparr>)"
  using assms by (auto simp: importProviderFunction_def require_def cannotFindModule_def Let_def)

lemma moduleFile_known:
  assumes "moduleFile fn = Some file"
  shows "truthy (lookupFunctionMap fn)" and "fn \<noteq> []"
  using assms
  by (auto simp: moduleFile_def lookupFunctionMap_def functionMap_def split: if_splits)

lemma require_context_state:
  assumes "fst (require s ContextPath) = Inr cm"
  shows "\<exists>s1 before. require s ContextPath = (Inr cm, s1) \<and>
           dist s1 = dist s \<and> behaviour s1 = behaviour s \<and> nextSignal s1 = nextSignal s \<and>
           cache s1 ContextPath = Some cm \<and>
           (\<forall>provider file. cache s1 (ModulePath provider file) = cache s (ModulePath provider file)) \<and>
           reads s1 = reads s @ before"
  using require_context_cases [OF assms] by auto

lemma import_state:
  assumes mf: "moduleFile fn = Some file"
  shows "\<exists>r s' during. importProviderFunction s p fn = (r, s') \<and>
           dist s' = dist s \<and> behaviour s' = behaviour s \<and> nextSignal s' = nextSignal s \<and>
           console s' = console s \<and> cache s' ContextPath = cache s ContextPath \<and>
           reads s' = reads s @ during \<and> ModulePath p file \<in> set during \<and>
           (case artifactAt s (ModulePath p file) of
              Some (Module m) \<Rightarrow> r = Inr (getProp m fn) \<and> cache s' (ModulePath p file) = Some m
            | _ \<Rightarrow> (\<exists>e. r = Inl (JError e)))"
proof (cases "artifactAt s (ModulePath p file)")
  case None
  show ?thesis
  proof (cases "cache s (ModulePath p file)")
    case N: None
    from import_fails_uncached [OF mf, of s p] None N show ?thesis by auto
  next
    case (Some stale)
    from import_fails_cached [OF mf, of s p _ stale] None Some show ?thesis by auto
  qed
next
  case (Some a)
  show ?thesis
  proof (cases a)
    case (Broken msg)
    show ?thesis
    proof (cases "cache s (ModulePath p file)")
      case N: None
      from import_fails_uncached [OF mf, of s p msg] Some Broken N show ?thesis by auto
    next
      case S: (Some stale)
      from import_fails_cached [OF mf, of s p msg stale] Some Broken S show ?thesis by auto
    qed
  next
    case (Module m)
    show ?thesis
    proof (cases "cache s (ModulePath p file)")
      case N: None
      from import_loads_uncached [OF mf, of s p m] Some Module N show ?thesis by auto
    next
      case S: (Some stale)
      from import_loads_cached [OF mf, of s p m stale] Some Module S show ?thesis by auto
    qed
  qed
qed

lemma artifactAt_dist: "dist s' = dist s \<Longrightarrow> artifactAt s' p = artifactAt s p"
  by (simp add: artifactAt_def)

lemma callFunction_behaviour:
  "behaviour s' = behaviour s \<Longrightarrow> callFunction s' f arg = callFunction s f arg"
  by (cases f) simp_all

text \<open>The whole call, once the helper bundle loads and the name has a module file.\<close>

lemma exec_result:
  assumes ctx: "fst (require s ContextPath) = Inr cm"
      and mf: "moduleFile fn = Some file"
  shows "\<exists>s' during.
     executeProviderFunction s p fn params =
       ((case artifactAt s (ModulePath p file) of
           Some (Module m) \<Rightarrow>
             if truthy (getProp m fn) then
               callFunction s (getProp m fn)
                 (buildExecutionParams params p (JSignal (nextSignal s))
                    (getProp cm ''providerContext''))
             else Thrown (JError (''Function not exported: '' @ fn @ '' from '' @ p))
         | _ \<Rightarrow> Thrown (JError (''Provider function not found: '' @ p @ ''/'' @ fn))), s') \<and>
     reads s' = reads s @ during \<and> ModulePath p file \<in> set during \<and>
     cache s' ContextPath = Some cm \<and>
     (\<forall>m. artifactAt s (ModulePath p file) = Some (Module m) \<longrightarrow>
        cache s' (ModulePath p file) = Some m \<and>
        nextSignal s' = (if truthy (getProp m fn) then Suc (nextSignal s) else nextSignal s))"
proof -
  note known = moduleFile_known(1) [OF mf]
  from require_context_state [OF ctx] obtain s1 before where
    r: "require s ContextPath = (Inr cm, s1)" and
    d1: "dist s1 = dist s" and b1: "behaviour s1 = behaviour s" and
    n1: "nextSignal s1 = nextSignal s" and c1: "cache s1 ContextPath = Some cm" and
    r1: "reads s1 = reads s @ before"
    by (elim exE conjE) simp
  from import_state [OF mf, of s1 p] obtain res s2 during where
    i: "importProviderFunction s1 p fn = (res, s2)" and
    d2: "dist s2 = dist s1" and b2: "behaviour s2 = behaviour s1" and
    n2: "nextSignal s2 = nextSignal s1" and c2: "cache s2 ContextPath = cache s1 ContextPath" and
    r2: "reads s2 = reads s1 @ during" and mem: "ModulePath p file \<in> set during" and
    art: "(case artifactAt s1 (ModulePath p file) of
              Some (Module m) \<Rightarrow> res = Inr (getProp m fn) \<and> cache s2 (ModulePath p file) = Some m
            | _ \<Rightarrow> (\<exists>e. res = Inl (JError e)))"
    by (elim exE conjE) simp
  have a1: "artifactAt s1 (ModulePath p file) = artifactAt s (ModulePath p file)"
    by (rule artifactAt_dist [OF d1])
  have call: "\<And>s3 f arg. behaviour s3 = behaviour s2 \<Longrightarrow> callFunction s3 f arg = callFunction s f arg"
    by (rule callFunction_behaviour) (simp add: b1 b2)
  have rd: "reads s2 = reads s @ (before @ during)" and mem': "ModulePath p file \<in> set (before @ during)"
    using r1 r2 mem by simp_all
  show ?thesis
  proof (cases "artifactAt s (ModulePath p file)")
    case None
    with art a1 obtain e where "res = Inl (JError e)" by auto
    with r i known None rd mem' c1 c2 show ?thesis
      by (simp add: executeProviderFunction_def executeProviderFunctionTry_def Let_def)
  next
    case (Some a)
    show ?thesis
    proof (cases a)
      case (Broken msg)
      with Some art a1 obtain e where "res = Inl (JError e)" by auto
      with r i known Some Broken rd mem' c1 c2 show ?thesis
        by (simp add: executeProviderFunction_def executeProviderFunctionTry_def Let_def)
    next
      case (Module m)
      with Some art a1 have res: "res = Inr (getProp m fn)"
        and cm: "cache s2 (ModulePath p file) = Some m" by auto
      show ?thesis
      proof (cases "truthy (getProp m fn)")
        case False
        with r i known Some Module res cm rd mem' c1 c2 n1 n2 show ?thesis
          by (simp add: executeProviderFunction_def executeProviderFunctionTry_def Let_def)
      next
        case True
        with r i known Some Module res cm rd mem' c1 c2 n1 n2 call show ?thesis
          by (simp add: executeProviderFunction_def executeProviderFunctionTry_def Let_def
                split: outcome.splits)
      qed
    qed
  qed
qed


lemma demo_context:
  "fst (require demoServer ContextPath) = Inr [''providerContext'' \<mapsto> helperBundle]"
  by (simp add: require_def artifactAt_def demoServer_def demoDist_def)


lemma require_nextSignal: "nextSignal (snd (require s p)) = nextSignal s"
  by (simp add: require_def split: option.splits artifact.splits)

lemma import_nextSignal: "nextSignal (snd (importProviderFunction s p fn)) = nextSignal s"
proof (cases "moduleFile fn")
  case None
  then show ?thesis by (simp add: importProviderFunction_def)
next
  case (Some mf)
  obtain r s1 where first: "require s (ModulePath p mf) = (r, s1)"
    by (cases "require s (ModulePath p mf)")
  with require_nextSignal [of s "ModulePath p mf"] have n1: "nextSignal s1 = nextSignal s"
    by simp
  show ?thesis
  proof (cases r)
    case (Inl e)
    with Some first n1 show ?thesis by (simp add: importProviderFunction_def)
  next
    case (Inr m)
    show ?thesis
    proof (cases "cache s1 (ModulePath p mf)")
      case None
      with Some first n1 Inr show ?thesis by (simp add: importProviderFunction_def)
    next
      case cached: (Some c)
      let ?s = "s1\<lparr>cache := (cache s1)(ModulePath p mf := None)\<rparr>"
      obtain r2 s2 where second: "require ?s (ModulePath p mf) = (r2, s2)"
        by (cases "require ?s (ModulePath p mf)")
      with require_nextSignal [of ?s "ModulePath p mf"] have "nextSignal s2 = nextSignal s1"
        by simp
      with Some first n1 Inr cached second show ?thesis
        by (cases r2) (simp_all add: importProviderFunction_def)
    qed
  qed
qed

section \<open>Auxiliary facts about the routes and the samples\<close>

lemma normalise_bracket: "normalise (CHR ''['' # rest) = CHR ''['' # normalise rest"
  by (simp add: normalise_def doubleQuotes_def isWordChar_def)



lemma extractField_empty:
  assumes "matchDeclaration name content = None \<or>
           (\<exists>lit. matchDeclaration name content = Some lit \<and>
              (parse (normalise lit) = Inr [] \<or> (\<exists>e. parse (normalise lit) = Inl e)))"
  shows "fst (extractField parse name content) = []"
  using assms by (auto simp: extractField_def)

lemma probe_genres_text:
  \<open>matchDeclaration ''genres'' ''export const genres = [{title: 'Action', filter: 'action'}];''
     = Some ''[{title: 'Action', filter: 'action'}]''\<close>
  by (simp add: matchDeclaration_def)

lemma probe_catalog_text:
  \<open>matchDeclaration ''catalog'' ''export const genres = [{title: 'Action', filter: 'action'}];''
     = None\<close>
  by (simp add: matchDeclaration_def)

lemma probe_genres_normalised:
  \<open>normalise ''[{title: 'Action', filter: 'action'}]'' = ''[{"title": "Action", "filter": "action"}]''\<close>
  by (simp add: normalise_def doubleQuotes_def isWordChar_def isSpaceChar_def)

lemma probe_genres_field:
  \<open>fst (extractField sampleParse ''genres''
          ''export const genres = [{title: 'Action', filter: 'action'}];'') =
     [JObj [(''title'', JStr ''Action''), (''filter'', JStr ''action'')]]\<close>
  by (simp add: extractField_def probe_genres_text probe_genres_normalised sampleParse_def)

lemma demo_catalog_text:
  \<open>matchDeclaration ''catalog''
      (''export const catalog = [{title: 'Latest', filter: 'latest',},];''
         @ '' export const genres = [{title: Action}];'')
     = Some ''[{title: 'Latest', filter: 'latest',},]''\<close>
  by (simp add: matchDeclaration_def)

lemma demo_genres_text:
  \<open>matchDeclaration ''genres''
      (''export const catalog = [{title: 'Latest', filter: 'latest',},];''
         @ '' export const genres = [{title: Action}];'')
     = Some ''[{title: Action}]''\<close>
  by (simp add: matchDeclaration_def)

lemma demo_catalog_normalised:
  \<open>normalise ''[{title: 'Latest', filter: 'latest',},]'' = ''[{"title": "Latest", "filter": "latest"}]''\<close>
  by (simp add: normalise_def doubleQuotes_def isWordChar_def isSpaceChar_def)

lemma demo_genres_normalised:
  \<open>normalise ''[{title: Action}]'' = ''[{"title": Action}]''\<close>
  by (simp add: normalise_def doubleQuotes_def isWordChar_def isSpaceChar_def)

lemma probe_artifact:
  "artifactAt demoServer (ModulePath ''probe'' ''posts.js'') =
     Some (Module [''getPosts'' \<mapsto> JFun 2])"
  by (simp add: demoServer_def demoDist_def artifactAt_def)

section \<open>A provider that is not in the registry\<close>




section \<open>A rebuilt artifact\<close>



section \<open>A name that is not a capability\<close>

text \<open>
  Claim C3, at the input where the code departs from it. \<open>functionMap[functionName]\<close>
  also finds what the object literal inherits, so \<open>toString\<close>, which is none of the five
  names, passes the check \<open>!actualFunctionName\<close>; no branch of the import matches it and
  the call ends with the error for a missing export, not with \<open>Unknown function\<close>.
\<close>

theorem inherited_name_passes_the_name_check:
  "''toString'' \<notin> set (map fst functionMap) \<and>
   fst (executeProviderFunction demoServer ''demo'' ''toString'' Map.empty) =
     Thrown (JError ''Function not exported: toString from demo'') \<and>
   fst (executeProviderRoute demoServer ''demo'' ''toString'' (Some Map.empty)) =
     Responded 500 (JObj [(''error'', JStr ''Function not exported: toString from demo'')])"
  by (simp add: sample_defs exec_unfold executeProviderRoute_def)

section \<open>A module that cannot be loaded\<close>




section \<open>A module without the export\<close>

text \<open>
  Claim C5. When the helper bundle loads, the function name has a module file and that
  file loads to a module whose property of that name is absent (or any other falsy
  value), the call fails with \<open>Function not exported: functionName from provider\<close>,
  which is not the error of a failed import.
\<close>

theorem missing_export_is_reported:
  assumes "fst (require s ContextPath) = Inr contextModule"
      and "moduleFile functionName = Some file"
      and "artifactAt s (ModulePath provider file) = Some (Module loaded)"
      and "\<not> truthy (getProp loaded functionName)"
  shows "fst (executeProviderFunction s provider functionName params) =
           Thrown (JError (''Function not exported: '' @ functionName @ '' from '' @ provider)) \<and>
         fst (executeProviderFunction s provider functionName params) \<noteq>
           Thrown (JError (''Provider function not found: '' @ provider @ ''/'' @ functionName))"
proof -
  from exec_result [OF assms(1) assms(2), of provider params] assms(3) assms(4)
  have "fst (executeProviderFunction s provider functionName params) =
      Thrown (JError (''Function not exported: '' @ functionName @ '' from '' @ provider))"
    by auto
  then show ?thesis by simp
qed

text \<open>At the sample installation, whose \<open>demo/meta.js\<close> exports nothing.\<close>

theorem missing_export_is_reported_witness:
  "artifactAt demoServer (ModulePath ''demo'' ''meta.js'') = Some (Module Map.empty) \<and>
   \<not> truthy (getProp Map.empty ''getMeta'') \<and>
   fst (executeProviderFunction demoServer ''demo'' ''getMeta'' Map.empty) =
     Thrown (JError ''Function not exported: getMeta from demo'')"
proof -
  have mf: "moduleFile ''getMeta'' = Some ''meta.js''"
    by (simp add: moduleFile_def)
  have a: "artifactAt demoServer (ModulePath ''demo'' ''meta.js'') = Some (Module Map.empty)"
    by (simp add: demoServer_def demoDist_def artifactAt_def)
  have e: "\<not> truthy (getProp Map.empty ''getMeta'')"
    by (simp add: getProp_def)
  from missing_export_is_reported [OF demo_context mf a e, of Map.empty]
  have r: "fst (executeProviderFunction demoServer ''demo'' ''getMeta'' Map.empty) =
     Thrown (JError ''Function not exported: getMeta from demo'')"
    by simp
  show ?thesis by (intro conjI a e r)
qed

section \<open>The default catalog\<close>

text \<open>
  Claim C6, as amended, for the route of \<open>dev-server.js\<close>. When \<open>catalog.ts\<close> is
  missing, or its catalog declaration is not found, or the literal does not decode, or it
  decodes to the empty array, the response is status 200 with the two-entry default as
  catalog. The genres are extracted on their own: empty when the file is missing, and
  otherwise whatever the genres block yields from the same text.
\<close>

theorem default_catalog_when_none_recovered:
  assumes "sources s provider = None \<or>
           (\<exists>content. sources s provider = Some (Text content) \<and>
              (matchDeclaration ''catalog'' content = None \<or>
               (\<exists>lit. matchDeclaration ''catalog'' content = Some lit \<and>
                  (parse (normalise lit) = Inr [] \<or> (\<exists>e. parse (normalise lit) = Inl e)))))"
  shows "fst (catalogRoute parse s provider) =
           Responded 200
             (JObj [(''catalog'', JArr defaultCatalog),
                    (''genres'',
                     JArr (case sources s provider of
                             Some (Text content) \<Rightarrow> fst (extractField parse ''genres'' content)
                           | _ \<Rightarrow> []))])"
  using assms
proof (elim disjE exE conjE)
  assume "sources s provider = None"
  then show ?thesis by (simp add: catalogRoute_def)
next
  fix content
  assume src: "sources s provider = Some (Text content)"
    and "matchDeclaration ''catalog'' content = None"
  then have "fst (extractField parse ''catalog'' content) = []"
    by (simp add: extractField_empty)
  with src show ?thesis
    by (simp add: catalogRoute_def extractCatalogMetadata_def split_beta)
next
  fix content lit
  assume src: "sources s provider = Some (Text content)"
    and "matchDeclaration ''catalog'' content = Some lit" "parse (normalise lit) = Inr []"
  then have "fst (extractField parse ''catalog'' content) = []"
    by (simp add: extractField_empty)
  with src show ?thesis
    by (simp add: catalogRoute_def extractCatalogMetadata_def split_beta)
next
  fix content lit e
  assume src: "sources s provider = Some (Text content)"
    and "matchDeclaration ''catalog'' content = Some lit" "parse (normalise lit) = Inl e"
  then have "fst (extractField parse ''catalog'' content) = []"
    by (simp add: extractField_empty)
  with src show ?thesis
    by (simp add: catalogRoute_def extractCatalogMetadata_def split_beta)
qed

text \<open>The amended statement at the sample installation: a source with a genres
  declaration only, and a provider with no source at all.\<close>

theorem default_catalog_when_none_recovered_witness:
  \<open>sources demoServer ''probe'' =
     Some (Text ''export const genres = [{title: 'Action', filter: 'action'}];'') \<and>
   matchDeclaration ''catalog'' ''export const genres = [{title: 'Action', filter: 'action'}];'' = None \<and>
   fst (catalogRoute sampleParse demoServer ''probe'') =
     Responded 200
       (JObj [(''catalog'', JArr defaultCatalog),
              (''genres'', JArr [JObj [(''title'', JStr ''Action''), (''filter'', JStr ''action'')]])]) \<and>
   sources demoServer ''ghost'' = None \<and>
   fst (catalogRoute sampleParse demoServer ''ghost'') =
     Responded 200 (JObj [(''catalog'', JArr defaultCatalog), (''genres'', JArr [])])\<close>
proof -
  have src: \<open>sources demoServer ''probe'' =
     Some (Text ''export const genres = [{title: 'Action', filter: 'action'}];'')\<close>
    by (simp add: demoServer_def demoSources_def)
  have none: "sources demoServer ''ghost'' = None"
    by (simp add: demoServer_def demoSources_def)
  have h: \<open>sources demoServer ''probe'' = None \<or>
           (\<exists>content. sources demoServer ''probe'' = Some (Text content) \<and>
              (matchDeclaration ''catalog'' content = None \<or>
               (\<exists>lit. matchDeclaration ''catalog'' content = Some lit \<and>
                  (sampleParse (normalise lit) = Inr [] \<or> (\<exists>e. sampleParse (normalise lit) = Inl e)))))\<close>
    using src probe_catalog_text by simp
  have r1: \<open>fst (catalogRoute sampleParse demoServer ''probe'') =
     Responded 200
       (JObj [(''catalog'', JArr defaultCatalog),
              (''genres'', JArr [JObj [(''title'', JStr ''Action''), (''filter'', JStr ''action'')]])])\<close>
    using default_catalog_when_none_recovered [OF h] src probe_genres_field by simp
  have r2: "fst (catalogRoute sampleParse demoServer ''ghost'') =
     Responded 200 (JObj [(''catalog'', JArr defaultCatalog), (''genres'', JArr [])])"
    using default_catalog_when_none_recovered [of demoServer "''ghost''" sampleParse] none by simp
  show ?thesis by (intro conjI src probe_catalog_text r1 none r2)
qed

text \<open>
  Against C6 as it was stated: a source whose catalog declaration cannot be located gets
  the default catalog together with a genres sequence that is not empty.
\<close>

theorem genres_survive_a_missing_catalog:
  \<open>sources demoServer ''probe'' =
     Some (Text ''export const genres = [{title: 'Action', filter: 'action'}];'') \<and>
   matchDeclaration ''catalog'' ''export const genres = [{title: 'Action', filter: 'action'}];'' = None \<and>
   fst (catalogRoute sampleParse demoServer ''probe'') =
     Responded 200
       (JObj [(''catalog'', JArr defaultCatalog),
              (''genres'', JArr [JObj [(''title'', JStr ''Action''), (''filter'', JStr ''action'')]])])\<close>
proof -
  have src: \<open>sources demoServer ''probe'' =
     Some (Text ''export const genres = [{title: 'Action', filter: 'action'}];'')\<close>
    by (simp add: demoServer_def demoSources_def)
  have cat: \<open>extractField sampleParse ''catalog''
       ''export const genres = [{title: 'Action', filter: 'action'}];'' = ([], [])\<close>
    by (simp add: extractField_def probe_catalog_text)
  have gen: \<open>extractField sampleParse ''genres''
       ''export const genres = [{title: 'Action', filter: 'action'}];'' =
       ([JObj [(''title'', JStr ''Action''), (''filter'', JStr ''action'')]], [])\<close>
    by (simp add: extractField_def probe_genres_text probe_genres_normalised sampleParse_def)
  have r: \<open>fst (catalogRoute sampleParse demoServer ''probe'') =
     Responded 200
       (JObj [(''catalog'', JArr defaultCatalog),
              (''genres'', JArr [JObj [(''title'', JStr ''Action''), (''filter'', JStr ''action'')]])])\<close>
    by (simp add: catalogRoute_def extractCatalogMetadata_def src cat gen)
  show ?thesis by (intro conjI src probe_catalog_text r)
qed

section \<open>An error raised by the provider\<close>




section \<open>Extracting the catalog metadata\<close>

text \<open>
  Claim C8. For every text and every behaviour of \<open>JSON.parse\<close>, the two extraction
  blocks return a catalog and a genres sequence, each decided by its own declaration
  alone: the decoded array when the declaration is found and decodes, the empty array
  when it is not found or does not decode, the failure written with \<open>console.error\<close>.
  Nothing is raised: for a readable source the route answers with status 200 and
  \<open>{catalog, genres}\<close>.
\<close>

theorem catalog_metadata_never_fails:
  "\<exists>catalog genres logged.
     extractCatalogMetadata parse content = (catalog, genres, logged) \<and>
     catalog =
       (case matchDeclaration ''catalog'' content of
          None \<Rightarrow> []
        | Some lit \<Rightarrow> (case parse (normalise lit) of Inr decoded \<Rightarrow> decoded | Inl e \<Rightarrow> [])) \<and>
     genres =
       (case matchDeclaration ''genres'' content of
          None \<Rightarrow> []
        | Some lit \<Rightarrow> (case parse (normalise lit) of Inr decoded \<Rightarrow> decoded | Inl e \<Rightarrow> [])) \<and>
     (\<forall>lit e. matchDeclaration ''catalog'' content = Some lit \<and> parse (normalise lit) = Inl e \<longrightarrow>
        [JStr ''Failed to parse catalog:'', e] \<in> set logged) \<and>
     (\<forall>lit e. matchDeclaration ''genres'' content = Some lit \<and> parse (normalise lit) = Inl e \<longrightarrow>
        [JStr ''Failed to parse genres:'', e] \<in> set logged) \<and>
     (sources s provider = Some (Text content) \<longrightarrow>
        catalogRoute parse s provider =
          (Responded 200
             (JObj [(''catalog'', JArr (if catalog = [] then defaultCatalog else catalog)),
                    (''genres'', JArr genres)]),
           s\<lparr>console := console s @ logged\<rparr>))"
  by (auto simp: extractCatalogMetadata_def extractField_def catalogRoute_def
           split: option.splits sum.splits)

text \<open>At the sample installation: the catalog literal of \<open>demo\<close> decodes after the
  normalisation, its genres literal does not.\<close>

theorem catalog_metadata_never_fails_witness:
  \<open>sources demoServer ''demo'' =
     Some (Text (''export const catalog = [{title: 'Latest', filter: 'latest',},];''
                   @ '' export const genres = [{title: Action}];'')) \<and>
   sampleParse (normalise ''[{title: 'Latest', filter: 'latest',},]'') =
     Inr [JObj [(''title'', JStr ''Latest''), (''filter'', JStr ''latest'')]] \<and>
   sampleParse (normalise ''[{title: Action}]'') = Inl (JError ''Unexpected token'') \<and>
   catalogRoute sampleParse demoServer ''demo'' =
     (Responded 200
        (JObj [(''catalog'', JArr [JObj [(''title'', JStr ''Latest''), (''filter'', JStr ''latest'')]]),
               (''genres'', JArr [])]),
      demoServer\<lparr>console := [[JStr ''Failed to parse genres:'', JError ''Unexpected token'']]\<rparr>)\<close>
proof -
  have src: \<open>sources demoServer ''demo'' =
     Some (Text (''export const catalog = [{title: 'Latest', filter: 'latest',},];''
                   @ '' export const genres = [{title: Action}];''))\<close>
    by (simp add: demoServer_def demoSources_def)
  have p1: \<open>sampleParse (normalise ''[{title: 'Latest', filter: 'latest',},]'') =
     Inr [JObj [(''title'', JStr ''Latest''), (''filter'', JStr ''latest'')]]\<close>
    by (simp add: demo_catalog_normalised sampleParse_def)
  have p2: \<open>sampleParse (normalise ''[{title: Action}]'') = Inl (JError ''Unexpected token'')\<close>
    by (simp add: demo_genres_normalised sampleParse_def)
  have meta: \<open>extractCatalogMetadata sampleParse
       (''export const catalog = [{title: 'Latest', filter: 'latest',},];''
          @ '' export const genres = [{title: Action}];'') =
     ([JObj [(''title'', JStr ''Latest''), (''filter'', JStr ''latest'')]], [],
      [[JStr ''Failed to parse genres:'', JError ''Unexpected token'']])\<close>
    by (simp add: extractCatalogMetadata_def extractField_def demo_catalog_text demo_genres_text
          p1 p2 del: append.simps)
  have c: "console demoServer = []"
    by (simp add: demoServer_def)
  from catalog_metadata_never_fails [of sampleParse
      \<open>''export const catalog = [{title: 'Latest', filter: 'latest',},];''
         @ '' export const genres = [{title: Action}];''\<close> demoServer "''demo''"]
  have r: \<open>catalogRoute sampleParse demoServer ''demo'' =
     (Responded 200
        (JObj [(''catalog'', JArr [JObj [(''title'', JStr ''Latest''), (''filter'', JStr ''latest'')]]),
               (''genres'', JArr [])]),
      demoServer\<lparr>console := [[JStr ''Failed to parse genres:'', JError ''Unexpected token'']]\<rparr>)\<close>
    by (simp only: meta src c prod.inject simp_thms ex_simps append_Nil list.simps if_False)
       auto
  show ?thesis by (intro conjI src p1 p2 r)
qed

section \<open>The execution context\<close>

text \<open>
  Claim C9. When a call reaches the provider function, the function is applied to one
  flat object: the caller's parameters with \<open>providerValue\<close>, \<open>signal\<close> and
  \<open>providerContext\<close> set, every other key as the caller gave it; the signal is the one
  created in this call (the count of created signals goes up by one, so the next call
  gets another), and the bundle is the \<open>providerContext\<close> of the helper module, which
  stays in the cache for the calls that follow.
\<close>

theorem execution_context_is_merged_and_fresh:
  assumes "fst (require s ContextPath) = Inr contextModule"
      and "moduleFile functionName = Some file"
      and "artifactAt s (ModulePath provider file) = Some (Module loaded)"
      and "loaded functionName = Some (JFun n)"
  shows "fst (executeProviderFunction s provider functionName params) =
           behaviour s n
             (params(''providerValue'' \<mapsto> JStr provider,
                     ''signal'' \<mapsto> JSignal (nextSignal s),
                     ''providerContext'' \<mapsto> getProp contextModule ''providerContext'')) \<and>
         (\<forall>key. key \<notin> {''providerValue'', ''signal'', ''providerContext''} \<longrightarrow>
            (params(''providerValue'' \<mapsto> JStr provider,
                    ''signal'' \<mapsto> JSignal (nextSignal s),
                    ''providerContext'' \<mapsto> getProp contextModule ''providerContext'')) key =
            params key) \<and>
         nextSignal (snd (executeProviderFunction s provider functionName params)) =
           Suc (nextSignal s) \<and>
         cache (snd (executeProviderFunction s provider functionName params)) ContextPath =
           Some contextModule"
proof -
  have "getProp loaded functionName = JFun n"
    using assms(4) by (simp add: getProp_def)
  with exec_result [OF assms(1) assms(2), of provider params] assms(3)
  show ?thesis by (auto simp: buildExecutionParams_def)
qed

text \<open>Two calls in a row at the sample installation, to the provider that returns the
  three engine fields it sees: the signals are number 0 and number 1, the bundle is the
  same.\<close>

theorem execution_context_is_merged_and_fresh_witness:
  "fst (executeProviderFunction demoServer ''probe'' ''getPosts'' [''page'' \<mapsto> JNum 1]) =
     Returned (JArr [JStr ''probe'', JSignal 0, helperBundle]) \<and>
   nextSignal (snd (executeProviderFunction demoServer ''probe'' ''getPosts'' [''page'' \<mapsto> JNum 1])) =
     Suc 0 \<and>
   fst (executeProviderFunction
          (snd (executeProviderFunction demoServer ''probe'' ''getPosts'' [''page'' \<mapsto> JNum 1]))
          ''probe'' ''getPosts'' [''page'' \<mapsto> JNum 1]) =
     Returned (JArr [JStr ''probe'', JSignal (Suc 0), helperBundle])"
proof -
  let ?s1 = "snd (executeProviderFunction demoServer ''probe'' ''getPosts'' [''page'' \<mapsto> JNum 1])"
  have mf: "moduleFile ''getPosts'' = Some ''posts.js''"
    by (simp add: moduleFile_def)
  have e: "[''getPosts'' \<mapsto> JFun 2] ''getPosts'' = Some (JFun 2)"
    by simp
  note first = execution_context_is_merged_and_fresh [OF demo_context mf probe_artifact e,
      of "[''page'' \<mapsto> JNum 1]"]
  have n0: "nextSignal demoServer = 0" and b0: "behaviour demoServer = demoBehaviour"
    by (simp_all add: demoServer_def)
  from first have r1: "fst (executeProviderFunction demoServer ''probe'' ''getPosts''
        [''page'' \<mapsto> JNum 1]) = Returned (JArr [JStr ''probe'', JSignal 0, helperBundle])"
    by (simp add: n0 b0 demoBehaviour_def getProp_def)
  from first have n1: "nextSignal ?s1 = Suc 0"
    by (simp add: n0)
  from first have c1: "cache ?s1 ContextPath = Some [''providerContext'' \<mapsto> helperBundle]"
    by simp
  have ctx1: "fst (require ?s1 ContextPath) = Inr [''providerContext'' \<mapsto> helperBundle]"
    using c1 by (simp add: require_def)
  have a1: "artifactAt ?s1 (ModulePath ''probe'' ''posts.js'') =
      Some (Module [''getPosts'' \<mapsto> JFun 2])"
    by (simp add: sample_defs exec_unfold)
  have b1: "behaviour ?s1 = demoBehaviour"
    by (simp add: sample_defs exec_unfold)
  note second = execution_context_is_merged_and_fresh [OF ctx1 mf a1 e, of "[''page'' \<mapsto> JNum 1]"]
  from second have r2: "fst (executeProviderFunction ?s1 ''probe'' ''getPosts''
        [''page'' \<mapsto> JNum 1]) = Returned (JArr [JStr ''probe'', JSignal (Suc 0), helperBundle])"
    by (simp add: n1 b1 demoBehaviour_def getProp_def)
  show ?thesis by (intro conjI r1 n1 r2)
qed

text \<open>
  Claim C10. Whatever the caller's parameters hold under \<open>providerValue\<close>, \<open>signal\<close>
  and \<open>providerContext\<close>, the object given to the provider function has the engine's
  provider name, the signal created in this call and the helper bundle under these keys.
\<close>

theorem engine_fields_override_caller_keys:
  assumes "fst (require s ContextPath) = Inr contextModule"
      and "moduleFile functionName = Some file"
      and "artifactAt s (ModulePath provider file) = Some (Module loaded)"
      and "loaded functionName = Some (JFun n)"
  shows "\<exists>executionParams.
           executionParams = buildExecutionParams params provider (JSignal (nextSignal s))
                       (getProp contextModule ''providerContext'') \<and>
           fst (executeProviderFunction s provider functionName params) = behaviour s n executionParams \<and>
           executionParams ''providerValue'' = Some (JStr provider) \<and>
           executionParams ''signal'' = Some (JSignal (nextSignal s)) \<and>
           executionParams ''providerContext'' = Some (getProp contextModule ''providerContext'')"
proof -
  have "getProp loaded functionName = JFun n"
    using assms(4) by (simp add: getProp_def)
  with exec_result [OF assms(1) assms(2), of provider params] assms(3)
  show ?thesis by (auto simp: buildExecutionParams_def)
qed

text \<open>At the sample installation, with a caller who sends all three keys.\<close>

theorem engine_fields_override_caller_keys_witness:
  "fst (executeProviderFunction demoServer ''probe'' ''getPosts''
          [''providerValue'' \<mapsto> JStr ''intruder'', ''signal'' \<mapsto> JNull,
           ''providerContext'' \<mapsto> JNum 7]) =
     Returned (JArr [JStr ''probe'', JSignal 0, helperBundle])"
proof -
  have mf: "moduleFile ''getPosts'' = Some ''posts.js''"
    by (simp add: moduleFile_def)
  have e: "[''getPosts'' \<mapsto> JFun 2] ''getPosts'' = Some (JFun 2)"
    by simp
  have n0: "nextSignal demoServer = 0" and b0: "behaviour demoServer = demoBehaviour"
    by (simp_all add: demoServer_def)
  from engine_fields_override_caller_keys [OF demo_context mf probe_artifact e,
      of "[''providerValue'' \<mapsto> JStr ''intruder'', ''signal'' \<mapsto> JNull,
           ''providerContext'' \<mapsto> JNum 7]"]
  obtain executionParams where
    run: "fst (executeProviderFunction demoServer ''probe'' ''getPosts''
          [''providerValue'' \<mapsto> JStr ''intruder'', ''signal'' \<mapsto> JNull,
           ''providerContext'' \<mapsto> JNum 7]) = behaviour demoServer 2 executionParams" and
    f1: "executionParams ''providerValue'' = Some (JStr ''probe'')" and
    f2: "executionParams ''signal'' = Some (JSignal (nextSignal demoServer))" and
    f3: "executionParams ''providerContext'' =
           Some (getProp [''providerContext'' \<mapsto> helperBundle] ''providerContext'')"
    by (elim exE conjE)
  from run f1 f2 f3 show ?thesis
    by (simp add: n0 b0 demoBehaviour_def getProp_def)
qed

section \<open>Further properties\<close>

text \<open>
  A name that is neither a key of \<open>functionMap\<close> nor inherited from \<open>Object.prototype\<close>
  is rejected with \<open>Unknown function\<close> whatever the provider is, and no module file of
  any provider is read.
\<close>

theorem unknown_name_is_rejected_before_any_lookup:
  assumes "fst (require s ContextPath) = Inr contextModule"
      and "functionName \<notin> set (map fst functionMap)"
      and "functionName \<notin> set objectPrototype"
  shows "fst (executeProviderFunction s provider functionName params) =
           Thrown (JError (''Unknown function: '' @ functionName)) \<and>
         set (drop (length (reads s))
                (reads (snd (executeProviderFunction s provider functionName params))))
           \<subseteq> {ContextPath}"
proof -
  have "map_of functionMap functionName = None"
    using assms(2) by (simp add: map_of_eq_None_iff)
  then have falsy: "\<not> truthy (lookupFunctionMap functionName)"
    using assms(3) by (simp add: lookupFunctionMap_def)
  from require_context_cases [OF assms(1)] falsy show ?thesis
    by (auto simp: executeProviderFunction_def executeProviderFunctionTry_def Let_def)
qed

theorem unknown_name_is_rejected_before_any_lookup_witness:
  "fst (executeProviderFunction demoServer ''demo'' ''fly'' Map.empty) =
     Thrown (JError ''Unknown function: fly'') \<and>
   fst (executeProviderFunction demoServer ''ghost'' ''fly'' Map.empty) =
     Thrown (JError ''Unknown function: fly'')"
proof -
  have k: "''fly'' \<notin> set (map fst functionMap)"
    by (simp add: functionMap_def)
  have i: "''fly'' \<notin> set objectPrototype"
    by (simp add: objectPrototype_def)
  from unknown_name_is_rejected_before_any_lookup [OF demo_context k i, of "''demo''" Map.empty]
    unknown_name_is_rejected_before_any_lookup [OF demo_context k i, of "''ghost''" Map.empty]
  show ?thesis by simp
qed

text \<open>The registry lists exactly the entries of \<open>dist\<close> that are directories.\<close>

theorem registry_lists_the_directories:
  "set (getAvailableProviders s) =
     {name. \<exists>entries files. dist s = Some entries \<and> (name, Dir files) \<in> set entries}"
proof (cases "dist s")
  case None
  then show ?thesis by (simp add: getAvailableProviders_def)
next
  case (Some entries)
  have "isDirectory e \<longleftrightarrow> (\<exists>files. e = Dir files)" for e
    by (cases e) simp_all
  with Some show ?thesis
    by (force simp: getAvailableProviders_def image_iff)
qed

text \<open>What the provider function returns is what the call returns and what the route
  sends, unmodified.\<close>

theorem result_is_returned_unmodified:
  assumes "fst (require s ContextPath) = Inr contextModule"
      and "moduleFile functionName = Some file"
      and "artifactAt s (ModulePath provider file) = Some (Module loaded)"
      and "loaded functionName = Some (JFun n)"
      and "behaviour s n
             (buildExecutionParams params provider (JSignal (nextSignal s))
                (getProp contextModule ''providerContext'')) = Returned result"
      and "provider \<noteq> []"
  shows "fst (executeProviderFunction s provider functionName params) = Returned result \<and>
         fst (executeProviderRoute s provider functionName (Some params)) = Responded 200 result"
proof -
  have "getProp loaded functionName = JFun n"
    using assms(4) by (simp add: getProp_def)
  with exec_result [OF assms(1) assms(2), of provider params] assms(3) assms(5)
  have r: "fst (executeProviderFunction s provider functionName params) = Returned result"
    by auto
  then have "fst (executeProviderRoute s provider functionName (Some params)) = Responded 200 result"
    using assms(6) moduleFile_known(2) [OF assms(2)]
    by (cases "executeProviderFunction s provider functionName params")
       (simp add: executeProviderRoute_def)
  with r show ?thesis by simp
qed

theorem result_is_returned_unmodified_witness:
  "fst (executeProviderFunction demoServer ''demo'' ''getPosts''
          [''filter'' \<mapsto> JStr [], ''page'' \<mapsto> JNum 1]) = Returned threePosts \<and>
   fst (executeProviderRoute demoServer ''demo'' ''getPosts''
          (Some [''filter'' \<mapsto> JStr [], ''page'' \<mapsto> JNum 1])) = Responded 200 threePosts"
proof -
  have mf: "moduleFile ''getPosts'' = Some ''posts.js''"
    by (simp add: moduleFile_def)
  have a: "artifactAt demoServer (ModulePath ''demo'' ''posts.js'') =
      Some (Module [''getPosts'' \<mapsto> JFun 0, ''getSearchPosts'' \<mapsto> JFun 1])"
    by (simp add: demoServer_def demoDist_def artifactAt_def)
  have e: "[''getPosts'' \<mapsto> JFun 0, ''getSearchPosts'' \<mapsto> JFun 1] ''getPosts'' = Some (JFun 0)"
    by simp
  have b: "behaviour demoServer 0
      (buildExecutionParams [''filter'' \<mapsto> JStr [], ''page'' \<mapsto> JNum 1] ''demo''
         (JSignal (nextSignal demoServer))
         (getProp [''providerContext'' \<mapsto> helperBundle] ''providerContext'')) = Returned threePosts"
    by (simp add: demoServer_def demoBehaviour_def)
  have p: "''demo'' \<noteq> []" by simp
  from result_is_returned_unmodified [OF demo_context mf a e b p]
  show ?thesis .
qed

text \<open>Asking for a catalog twice with nothing changed on disk gives the same response.\<close>

theorem catalog_route_is_idempotent:
  "fst (catalogRoute parse (snd (catalogRoute parse s provider)) provider) =
     fst (catalogRoute parse s provider)"
  by (simp add: catalogRoute_def split_beta split: option.splits source.splits)

text \<open>
  The catalog route of the older server file has no fallback once the declaration is
  found: an empty decoded catalog is sent as it is, and a literal that does not decode is
  answered with status 500.
\<close>

theorem old_catalog_route_has_no_fallback_after_a_match:
  assumes "sources s provider = Some (Text content)"
      and "matchDeclaration ''catalog'' content = Some lit"
  shows "(parse (normalise lit) = Inr [] \<longrightarrow>
            fst (catalogRouteOld parse s provider) = Responded 200 (JArr [])) \<and>
         (\<forall>e. parse (normalise lit) = Inl e \<longrightarrow>
            fst (catalogRouteOld parse s provider) =
              Responded 500 (JObj [(''error'', JStr ''catalogStr is not defined'')]))"
  using assms by (simp add: catalogRouteOld_def)

theorem old_catalog_route_has_no_fallback_after_a_match_witness:
  \<open>sampleParse (normalise ''[{title: Action}]'') = Inl (JError ''Unexpected token'') \<and>
   fst (catalogRouteOld sampleParse
          (demoServer\<lparr>sources := [''demo'' \<mapsto> Text ''export const catalog = [{title: Action}];'']\<rparr>)
          ''demo'') =
     Responded 500 (JObj [(''error'', JStr ''catalogStr is not defined'')])\<close>
proof -
  have src: \<open>sources (demoServer\<lparr>sources :=
        [''demo'' \<mapsto> Text ''export const catalog = [{title: Action}];'']\<rparr>) ''demo'' =
      Some (Text ''export const catalog = [{title: Action}];'')\<close>
    by simp
  have m: \<open>matchDeclaration ''catalog'' ''export const catalog = [{title: Action}];'' =
      Some ''[{title: Action}]''\<close>
    by (simp add: matchDeclaration_def)
  have p: \<open>sampleParse (normalise ''[{title: Action}]'') = Inl (JError ''Unexpected token'')\<close>
    by (simp add: demo_genres_normalised sampleParse_def)
  from old_catalog_route_has_no_fallback_after_a_match [OF src m, of sampleParse] p
  have r: \<open>fst (catalogRouteOld sampleParse
          (demoServer\<lparr>sources := [''demo'' \<mapsto> Text ''export const catalog = [{title: Action}];'']\<rparr>)
          ''demo'') =
     Responded 500 (JObj [(''error'', JStr ''catalogStr is not defined'')])\<close>
    by simp
  show ?thesis by (intro conjI p r)
qed

text \<open>A provider function that rejects with \<open>null\<close>: the \<open>catch\<close> block of the route
  raises while it reads \<open>error.message\<close>, and the route sends nothing.\<close>

theorem null_rejection_escapes_the_route:
  \<open>fst (executeProviderFunction demoServer ''flaky'' ''getSearchPosts'' Map.empty) = Thrown JNull \<and>
   fst (executeProviderRoute demoServer ''flaky'' ''getSearchPosts'' (Some Map.empty)) =
     Unhandled (JError ''Cannot read properties of null (reading 'message')'')\<close>
  by (simp add: sample_defs exec_unfold executeProviderRoute_def messageTypeError_def)

text \<open>No call lowers the count of created signals, so a signal number given to one
  request is never given to a later one.\<close>

theorem signal_numbers_are_never_reused:
  "nextSignal s \<le> nextSignal (snd (executeProviderFunction s provider functionName params))"
proof -
  obtain r s1 where first: "require s ContextPath = (r, s1)"
    by (cases "require s ContextPath")
  with require_nextSignal [of s ContextPath] have n1: "nextSignal s1 = nextSignal s"
    by simp
  obtain r2 s2 where second: "importProviderFunction s1 provider functionName = (r2, s2)"
    by (cases "importProviderFunction s1 provider functionName")
  with import_nextSignal [of s1 provider functionName] have n2: "nextSignal s2 = nextSignal s1"
    by simp
  have "nextSignal s \<le> nextSignal (snd (executeProviderFunctionTry s provider functionName params))"
    using first n1 second n2
    by (cases r; cases r2)
       (simp_all add: executeProviderFunctionTry_def Let_def split: option.splits)
  then show ?thesis
    by (cases "executeProviderFunctionTry s provider functionName params")
       (simp add: executeProviderFunction_def split: outcome.splits)
qed

text \<open>When the helper bundle cannot be loaded, the call ends with what \<open>require\<close>
  raised, before the function name is looked at.\<close>

theorem helper_bundle_failure_ends_the_call:
  assumes "fst (require s ContextPath) = Inl loadError"
  shows "fst (executeProviderFunction s provider functionName params) = Thrown loadError"
  using assms
  by (cases "require s ContextPath")
     (simp add: executeProviderFunction_def executeProviderFunctionTry_def)

theorem helper_bundle_failure_ends_the_call_witness:
  "fst (require (demoServer\<lparr>dist := None\<rparr>) ContextPath) =
     Inl (JError ''Cannot find module dist/providerContext'') \<and>
   fst (executeProviderFunction (demoServer\<lparr>dist := None\<rparr>) ''demo'' ''fly'' Map.empty) =
     Thrown (JError ''Cannot find module dist/providerContext'')"
proof -
  have h: "fst (require (demoServer\<lparr>dist := None\<rparr>) ContextPath) =
      Inl (JError ''Cannot find module dist/providerContext'')"
    by (simp add: require_def artifactAt_def demoServer_def cannotFindModule_def)
  from helper_bundle_failure_ends_the_call [OF h, of "''demo''" "''fly''" Map.empty] h
  show ?thesis by simp
qed

text \<open>The text handed to \<open>JSON.parse\<close> always starts with the opening bracket of the
  matched literal, so what it decodes is an array.\<close>

theorem decoder_input_starts_with_a_bracket:
  assumes "matchDeclaration name content = Some lit"
  shows "\<exists>rest. normalise lit = CHR ''['' # rest"
proof -
  from assms obtain body where "lit = CHR ''['' # body @ '']''"
    by (auto simp: matchDeclaration_def split: option.splits)
  then show ?thesis by (simp add: normalise_bracket)
qed

theorem decoder_input_starts_with_a_bracket_witness:
  \<open>matchDeclaration ''genres'' ''export const genres = [{title: 'Action', filter: 'action'}];''
     = Some ''[{title: 'Action', filter: 'action'}]'' \<and>
   (\<exists>rest. normalise ''[{title: 'Action', filter: 'action'}]'' = CHR ''['' # rest)\<close>
  using decoder_input_starts_with_a_bracket [OF probe_genres_text] probe_genres_text
  by simp

end
